theory Spec2Isabelle
  imports Complex_Main
begin

section \<open>Data model (src/pages/Index.tsx, the declarations of types/workflow)\<close>

text \<open>
  A JavaScript string is modelled as a \<^typ>\<open>string\<close>: a list of code units, here the
  code units below 256 (Latin-1), which \<open>toLowerCase\<close> maps into themselves: it adds 32
  to the letters A to Z and to the code units 192 to 222 but 215, and keeps the others. A
  text with a code unit above 255 is outside this model. A timestamp and a value of
  \<open>Date.now()\<close> are natural numbers (milliseconds), printed in decimal in an id.
  \<open>Record<string, any>\<close> is an association list in insertion order; the values the
  templates hold are strings and numbers.
\<close>

datatype param_value = PStr string | PNum rat

type_synonym params = "(string \<times> param_value) list"

datatype step_status = Pending | Executing | Completed | Error

datatype query_status = Processing | QCompleted | QError

datatype layer_type = FloodRisk | GreenSpace | HeatIsland | UrbanBoundary

record step_result =
  message :: string
  data :: string

record workflow_step =
  ws_id :: string
  ws_operation :: string
  ws_input :: string
  ws_parameters :: params
  ws_explanation :: string
  ws_status :: step_status
  ws_result :: "step_result option"
  ws_editable :: "bool option"

record geo_query =
  gq_id :: string
  gq_query :: string
  gq_timestamp :: nat
  gq_steps :: "workflow_step list"
  gq_status :: query_status

text \<open>The \<open>data\<close> of a layer is \<open>{ features: [] }\<close>: no feature is ever built.\<close>

datatype geojson_feature = Feature

record layer_data =
  features :: "geojson_feature list"

record map_layer =
  ml_id :: string
  ml_name :: string
  ml_type :: layer_type
  ml_data :: layer_data
  ml_visible :: bool
  ml_color :: string

text \<open>
  \<open>Partial<WorkflowStep>\<close>: every key may be absent (\<open>None\<close>) or present with a value.
  The two optional fields of a step may be present with the value \<open>undefined\<close>.
\<close>

record step_updates =
  upd_id :: "string option"
  upd_operation :: "string option"
  upd_input :: "string option"
  upd_parameters :: "params option"
  upd_explanation :: "string option"
  upd_status :: "step_status option"
  upd_result :: "step_result option option"
  upd_editable :: "bool option option"

section \<open>String operations of the host language\<close>

definition toLowerChar :: "char \<Rightarrow> char" where
  "toLowerChar c =
     (let n = (of_char c :: nat)
      in if (65 \<le> n \<and> n \<le> 90) \<or> (192 \<le> n \<and> n \<le> 222 \<and> n \<noteq> 215)
         then char_of (n + 32) else c)"

definition toLowerCase :: "string \<Rightarrow> string" where
  "toLowerCase s = map toLowerChar s"

fun startsWith :: "string \<Rightarrow> string \<Rightarrow> bool" where
  "startsWith s [] = True"
| "startsWith [] (c # sub) = False"
| "startsWith (d # s) (c # sub) = (d = c \<and> startsWith s sub)"

fun includes_str :: "string \<Rightarrow> string \<Rightarrow> bool" where
  "includes_str [] sub = (sub = [])"
| "includes_str (d # s) sub = (startsWith (d # s) sub \<or> includes_str s sub)"

fun decimal :: "nat \<Rightarrow> string" where
  "decimal n =
     (if n < 10 then [char_of (48 + n)]
      else decimal (n div 10) @ [char_of (48 + n mod 10)])"

declare decimal.simps [simp del]

section \<open>The template selector\<close>

definition generateWorkflowSteps :: "string \<Rightarrow> workflow_step list" where
  "generateWorkflowSteps query =
     (let steps = [] in
      if includes_str (toLowerCase query) ''flood'' then
        steps @
        [\<lparr>ws_id = ''step-1'',
          ws_operation = ''Data Collection'',
          ws_input = ''Ahmedabad elevation data from SRTM'',
          ws_parameters = [(''resolution'', PStr ''30m''), (''bounds'', PStr ''ahmedabad_boundary'')],
          ws_explanation = ''Collect digital elevation model to understand terrain and water flow patterns'',
          ws_status = Pending,
          ws_result = None,
          ws_editable = Some True\<rparr>,
         \<lparr>ws_id = ''step-2'',
          ws_operation = ''Hydrological Analysis'',
          ws_input = ''DEM + precipitation data'',
          ws_parameters = [(''rainfall_threshold'', PStr ''100mm''), (''buffer_distance'', PStr ''500m'')],
          ws_explanation = ''Analyze water accumulation areas and drainage patterns during heavy rainfall'',
          ws_status = Pending,
          ws_result = None,
          ws_editable = Some True\<rparr>,
         \<lparr>ws_id = ''step-3'',
          ws_operation = ''Risk Zone Classification'',
          ws_input = ''Flow accumulation + historical flood data'',
          ws_parameters = [(''risk_levels'', PNum 3), (''confidence_threshold'', PNum (8 / 10))],
          ws_explanation = ''Classify areas into high, medium, and low flood risk zones based on multiple factors'',
          ws_status = Pending,
          ws_result = None,
          ws_editable = Some True\<rparr>]
      else if includes_str (toLowerCase query) ''park'' \<or> includes_str (toLowerCase query) ''green'' then
        steps @
        [\<lparr>ws_id = ''step-1'',
          ws_operation = ''Green Space Detection'',
          ws_input = ''Sentinel-2 satellite imagery'',
          ws_parameters = [(''ndvi_threshold'', PNum (4 / 10)), (''min_area'', PStr ''1000m2'')],
          ws_explanation = ''Use NDVI to identify vegetated areas and filter by minimum size'',
          ws_status = Pending,
          ws_result = None,
          ws_editable = Some True\<rparr>,
         \<lparr>ws_id = ''step-2'',
          ws_operation = ''Proximity Analysis'',
          ws_input = ''Green spaces + reference point'',
          ws_parameters = [(''search_radius'', PStr ''2000m''), (''transport_mode'', PStr ''walking'')],
          ws_explanation = ''Calculate accessibility to green spaces within walking distance'',
          ws_status = Pending,
          ws_result = None,
          ws_editable = Some True\<rparr>]
      else if includes_str (toLowerCase query) ''heat'' then
        steps @
        [\<lparr>ws_id = ''step-1'',
          ws_operation = ''Land Surface Temperature'',
          ws_input = ''Landsat thermal bands'',
          ws_parameters = [(''date_range'', PStr ''2023-04-01_2023-06-30''), (''cloud_cover'', PNum 20)],
          ws_explanation = ''Calculate land surface temperature from thermal infrared imagery'',
          ws_status = Pending,
          ws_result = None,
          ws_editable = Some True\<rparr>,
         \<lparr>ws_id = ''step-2'',
          ws_operation = ''Urban Heat Island Detection'',
          ws_input = ''LST + land cover classification'',
          ws_parameters = [(''temperature_threshold'', PStr (''35'' @ [CHR 0xB0] @ ''C'')), (''urban_buffer'', PStr ''1km'')],
          ws_explanation = ''Identify areas with significantly higher temperatures than surroundings'',
          ws_status = Pending,
          ws_result = None,
          ws_editable = Some True\<rparr>]
      else steps)"

section \<open>Application state and handlers\<close>

text \<open>
  The two \<open>useState\<close> cells, and the timers that \<open>setTimeout\<close> has scheduled and that
  have not fired yet. A timer holds what its closure captured. Each handler and each timer
  callback runs to its end before the next one starts (one event loop), and the updater
  functions passed to \<open>setQueries\<close> are applied in the order of the calls; the
  \<open>queries\<close> that \<open>handleExecuteWorkflow\<close> reads from its closure is the state of
  the last render, that is, the state in which the handler is called. Toasts and console
  output are not part of the state.
\<close>

datatype timer =
    StepTimer string string
  | WorkflowTimer string geo_query

record app_state =
  queries :: "geo_query list"
  mapLayers :: "map_layer list"
  timers :: "timer list"

definition init_state :: app_state where
  "init_state = \<lparr>queries = [], mapLayers = [], timers = []\<rparr>"

text \<open>\<open>now\<close> is what \<open>Date.now()\<close> returns, \<open>stamp\<close> what \<open>new Date()\<close> holds.\<close>

definition handleSubmitQuery :: "nat \<Rightarrow> nat \<Rightarrow> string \<Rightarrow> app_state \<Rightarrow> app_state" where
  "handleSubmitQuery now stamp query s =
     (let newQuery = \<lparr>gq_id = ''query-'' @ decimal now,
                       gq_query = query,
                       gq_timestamp = stamp,
                       gq_steps = generateWorkflowSteps query,
                       gq_status = Processing\<rparr>
      in s\<lparr>queries := queries s @ [newQuery]\<rparr>)"

text \<open>The object spread \<open>{ ...step, ...updates }\<close>: every key of \<open>updates\<close> wins.\<close>

definition spread_updates :: "workflow_step \<Rightarrow> step_updates \<Rightarrow> workflow_step" where
  "spread_updates step updates =
     \<lparr>ws_id = (case upd_id updates of None \<Rightarrow> ws_id step | Some v \<Rightarrow> v),
      ws_operation = (case upd_operation updates of None \<Rightarrow> ws_operation step | Some v \<Rightarrow> v),
      ws_input = (case upd_input updates of None \<Rightarrow> ws_input step | Some v \<Rightarrow> v),
      ws_parameters = (case upd_parameters updates of None \<Rightarrow> ws_parameters step | Some v \<Rightarrow> v),
      ws_explanation = (case upd_explanation updates of None \<Rightarrow> ws_explanation step | Some v \<Rightarrow> v),
      ws_status = (case upd_status updates of None \<Rightarrow> ws_status step | Some v \<Rightarrow> v),
      ws_result = (case upd_result updates of None \<Rightarrow> ws_result step | Some v \<Rightarrow> v),
      ws_editable = (case upd_editable updates of None \<Rightarrow> ws_editable step | Some v \<Rightarrow> v)\<rparr>"

definition handleEditStep :: "string \<Rightarrow> string \<Rightarrow> step_updates \<Rightarrow> app_state \<Rightarrow> app_state" where
  "handleEditStep queryId stepId updates s =
     s\<lparr>queries := map (\<lambda>query.
          if gq_id query = queryId then
            query\<lparr>gq_steps := map (\<lambda>step.
              if ws_id step = stepId then spread_updates step updates else step) (gq_steps query)\<rparr>
          else query) (queries s)\<rparr>"

definition handleExecuteStep :: "string \<Rightarrow> string \<Rightarrow> app_state \<Rightarrow> app_state" where
  "handleExecuteStep queryId stepId s =
     s\<lparr>queries := map (\<lambda>query.
          if gq_id query = queryId then
            query\<lparr>gq_steps := map (\<lambda>step.
              if ws_id step = stepId then step\<lparr>ws_status := Executing\<rparr> else step) (gq_steps query)\<rparr>
          else query) (queries s),
       timers := timers s @ [StepTimer queryId stepId]\<rparr>"

definition handleExecuteWorkflow :: "string \<Rightarrow> app_state \<Rightarrow> app_state" where
  "handleExecuteWorkflow queryId s =
     (case find (\<lambda>q. gq_id q = queryId) (queries s) of
        None \<Rightarrow> s
      | Some query \<Rightarrow>
          (let s1 = foldl (\<lambda>acc step.
                      if ws_status step = Pending then handleExecuteStep queryId (ws_id step) acc
                      else acc) s (gq_steps query)
           in s1\<lparr>timers := timers s1 @ [WorkflowTimer queryId query]\<rparr>))"

definition sampleLayer :: "nat \<Rightarrow> geo_query \<Rightarrow> map_layer" where
  "sampleLayer now query =
     \<lparr>ml_id = ''layer-'' @ decimal now,
      ml_name = ''Result: '' @ gq_query query,
      ml_type = (if includes_str (toLowerCase (gq_query query)) ''flood'' then FloodRisk
                 else if includes_str (toLowerCase (gq_query query)) ''green'' then GreenSpace
                 else HeatIsland),
      ml_data = \<lparr>features = []\<rparr>,
      ml_visible = True,
      ml_color = (if includes_str (toLowerCase (gq_query query)) ''flood'' then ''#dc2626''
                  else if includes_str (toLowerCase (gq_query query)) ''green'' then ''#16a34a''
                  else ''#f59e0b'')\<rparr>"

text \<open>The body of a timer's callback, run when the timer fires.\<close>

fun timerCallback :: "nat \<Rightarrow> timer \<Rightarrow> app_state \<Rightarrow> app_state" where
  "timerCallback now (StepTimer queryId stepId) s =
     s\<lparr>queries := map (\<lambda>query.
          if gq_id query = queryId then
            query\<lparr>gq_steps := map (\<lambda>step.
              if ws_id step = stepId then
                step\<lparr>ws_status := Completed,
                     ws_result := Some \<lparr>message = ''Step completed successfully'',
                                        data = ''sample_output.geojson''\<rparr>\<rparr>
              else step) (gq_steps query)\<rparr>
          else query) (queries s)\<rparr>"
| "timerCallback now (WorkflowTimer queryId query) s =
     s\<lparr>queries := map (\<lambda>q. if gq_id q = queryId then q\<lparr>gq_status := QCompleted\<rparr> else q) (queries s),
       mapLayers := mapLayers s @ [sampleLayer now query]\<rparr>"

text \<open>
  Firing the pending timer at position \<open>i\<close>: it leaves the pending list and its callback
  runs. Any pending timer may be chosen, so every order of firing is covered.
\<close>

definition fire :: "nat \<Rightarrow> nat \<Rightarrow> app_state \<Rightarrow> app_state" where
  "fire i now s =
     (if i < length (timers s)
      then timerCallback now (timers s ! i) (s\<lparr>timers := take i (timers s) @ drop (Suc i) (timers s)\<rparr>)
      else s)"

datatype event =
    SubmitQuery nat nat string
  | EditStep string string step_updates
  | ExecuteStep string string
  | ExecuteWorkflow string
  | Fire nat nat

fun apply_event :: "event \<Rightarrow> app_state \<Rightarrow> app_state" where
  "apply_event (SubmitQuery now stamp query) s = handleSubmitQuery now stamp query s"
| "apply_event (EditStep queryId stepId updates) s = handleEditStep queryId stepId updates s"
| "apply_event (ExecuteStep queryId stepId) s = handleExecuteStep queryId stepId s"
| "apply_event (ExecuteWorkflow queryId) s = handleExecuteWorkflow queryId s"
| "apply_event (Fire i now) s = fire i now s"

fun run :: "event list \<Rightarrow> app_state \<Rightarrow> app_state" where
  "run [] s = s"
| "run (e # es) s = run es (apply_event e s)"

fun isEdit :: "event \<Rightarrow> bool" where
  "isEdit (EditStep queryId stepId updates) = True"
| "isEdit e = False"

text \<open>
  What the chat surface offers (src/components/ChatPanel.tsx): the button that calls
  \<open>onExecuteWorkflow\<close> is rendered for a session only when
  \<open>query.steps.length > 0 && query.status === 'processing'\<close>. The other events are
  left unrestricted here.
\<close>

fun ui_offers :: "app_state \<Rightarrow> event \<Rightarrow> bool" where
  "ui_offers s (ExecuteWorkflow queryId) =
     (\<exists>query \<in> set (queries s).
        gq_id query = queryId \<and> length (gq_steps query) > 0 \<and> gq_status query = Processing)"
| "ui_offers s e = True"

fun ui_trace :: "app_state \<Rightarrow> event list \<Rightarrow> bool" where
  "ui_trace s [] = True"
| "ui_trace s (e # es) = (ui_offers s e \<and> ui_trace (apply_event e s) es)"

definition no_error :: "app_state \<Rightarrow> bool" where
  "no_error s =
     (\<forall>query \<in> set (queries s).
        gq_status query \<noteq> QError \<and> (\<forall>step \<in> set (gq_steps query). ws_status step \<noteq> Error))"

text \<open>
  The frame of an operation addressed to \<open>(queryId, stepId)\<close>: the session list keeps
  its length and order, the layer list is untouched, a session with another id is
  untouched, and inside an addressed session only the steps whose id is \<open>stepId\<close> may
  differ.
\<close>

definition frame_preserved :: "string \<Rightarrow> string \<Rightarrow> app_state \<Rightarrow> app_state \<Rightarrow> bool" where
  "frame_preserved queryId stepId s s' =
     (length (queries s') = length (queries s)
      \<and> mapLayers s' = mapLayers s
      \<and> (\<forall>i < length (queries s).
           (gq_id (queries s ! i) \<noteq> queryId \<longrightarrow> queries s' ! i = queries s ! i)
           \<and> gq_id (queries s' ! i) = gq_id (queries s ! i)
           \<and> gq_query (queries s' ! i) = gq_query (queries s ! i)
           \<and> gq_timestamp (queries s' ! i) = gq_timestamp (queries s ! i)
           \<and> gq_status (queries s' ! i) = gq_status (queries s ! i)
           \<and> length (gq_steps (queries s' ! i)) = length (gq_steps (queries s ! i))
           \<and> (\<forall>j < length (gq_steps (queries s ! i)).
                ws_id (gq_steps (queries s ! i) ! j) \<noteq> stepId \<longrightarrow>
                  gq_steps (queries s' ! i) ! j = gq_steps (queries s ! i) ! j)))"

text \<open>
  What every operation keeps of a session: its id, its text, its timestamp, the number of
  its steps, and the status completed once it is reached. \<open>sessions_kept s s'\<close> says
  that the sessions of \<open>s\<close> are still there in \<open>s'\<close>, at the same positions.
\<close>

definition same_session :: "geo_query \<Rightarrow> geo_query \<Rightarrow> bool" where
  "same_session q q' =
     (gq_id q' = gq_id q \<and> gq_query q' = gq_query q \<and> gq_timestamp q' = gq_timestamp q
      \<and> length (gq_steps q') = length (gq_steps q)
      \<and> (gq_status q = QCompleted \<longrightarrow> gq_status q' = QCompleted))"

definition sessions_kept :: "app_state \<Rightarrow> app_state \<Rightarrow> bool" where
  "sessions_kept s s' =
     (length (queries s) \<le> length (queries s')
      \<and> (\<forall>i < length (queries s). same_session (queries s ! i) (queries s' ! i)))"

text \<open>
  The invariant of the traces the chat surface offers: a session has as many steps as its
  template, a pending workflow timer captured a session whose template is not empty, and
  every layer is named after a query text whose template is not empty.
\<close>

definition ui_inv :: "app_state \<Rightarrow> bool" where
  "ui_inv s =
     ((\<forall>q \<in> set (queries s). length (gq_steps q) = length (generateWorkflowSteps (gq_query q)))
      \<and> (\<forall>t \<in> set (timers s).
            case t of StepTimer queryId stepId \<Rightarrow> True
                    | WorkflowTimer queryId q \<Rightarrow> generateWorkflowSteps (gq_query q) \<noteq> [])
      \<and> (\<forall>layer \<in> set (mapLayers s).
            \<exists>query. ml_name layer = ''Result: '' @ query \<and> generateWorkflowSteps query \<noteq> []))"

subsection \<open>Example states\<close>

text \<open>An edit as the step card sends it: the parameter mapping alone, one number changed.\<close>

definition example_updates :: step_updates where
  "example_updates =
     \<lparr>upd_id = None, upd_operation = None, upd_input = None,
      upd_parameters = Some [(''date_range'', PStr ''2023-04-01_2023-06-30''), (''cloud_cover'', PNum 50)],
      upd_explanation = None, upd_status = None, upd_result = None, upd_editable = None\<rparr>"

definition flood_updates :: step_updates where
  "flood_updates =
     \<lparr>upd_id = None, upd_operation = None, upd_input = None,
      upd_parameters = Some [(''resolution'', PStr ''10m''), (''bounds'', PStr ''ahmedabad_boundary'')],
      upd_explanation = None, upd_status = None, upd_result = None, upd_editable = None\<rparr>"

definition heat_submitted :: app_state where
  "heat_submitted = run [SubmitQuery 5 6 ''urban heat''] init_state"

definition heat_step_done :: app_state where
  "heat_step_done =
     run [SubmitQuery 5 6 ''urban heat'', ExecuteStep ''query-5'' ''step-1'', Fire 0 9] init_state"

definition flood_completed :: app_state where
  "flood_completed =
     run [SubmitQuery 5 6 ''Find flood-risk zones near Sabarmati River'',
          ExecuteWorkflow ''query-5'', Fire 0 7, Fire 0 7, Fire 0 7, Fire 0 10] init_state"

definition parks_submitted :: app_state where
  "parks_submitted = run [SubmitQuery 5 6 ''Locate parks within 2km of Kankaria Lake''] init_state"

section \<open>The template selector follows its table\<close>

lemma startsWith_iff: "startsWith s sub \<longleftrightarrow> (\<exists>post. s = sub @ post)"
  by (induction s sub rule: startsWith.induct) auto

lemma includes_str_iff: "includes_str s sub \<longleftrightarrow> (\<exists>pre post. s = pre @ sub @ post)"
proof (induction s)
  case Nil
  then show ?case by auto
next
  case (Cons d s)
  show ?case
  proof
    assume "includes_str (d # s) sub"
    then consider "startsWith (d # s) sub" | "includes_str s sub" by auto
    then show "\<exists>pre post. d # s = pre @ sub @ post"
    proof cases
      case 1
      then obtain post where "d # s = sub @ post" by (auto simp: startsWith_iff)
      then have "d # s = [] @ sub @ post" by simp
      then show ?thesis by blast
    next
      case 2
      then obtain pre post where "s = pre @ sub @ post" using Cons.IH by blast
      then have "d # s = (d # pre) @ sub @ post" by simp
      then show ?thesis by blast
    qed
  next
    assume "\<exists>pre post. d # s = pre @ sub @ post"
    then obtain pre post where eq: "d # s = pre @ sub @ post" by blast
    show "includes_str (d # s) sub"
    proof (cases pre)
      case Nil
      then have "startsWith (d # s) sub" using eq by (auto simp: startsWith_iff)
      then show ?thesis by simp
    next
      case (Cons p pre')
      then have "s = pre' @ sub @ post" using eq by simp
      then have "includes_str s sub" using Cons.IH by blast
      then show ?thesis by simp
    qed
  qed
qed


lemma flood_template:
  "includes_str (toLowerCase query) ''flood'' \<Longrightarrow>
     map ws_operation (generateWorkflowSteps query) =
       [''Data Collection'', ''Hydrological Analysis'', ''Risk Zone Classification'']"
  by (simp add: generateWorkflowSteps_def)

lemma green_template:
  "\<not> includes_str (toLowerCase query) ''flood'' \<Longrightarrow>
   includes_str (toLowerCase query) ''park'' \<or> includes_str (toLowerCase query) ''green'' \<Longrightarrow>
     map ws_operation (generateWorkflowSteps query) =
       [''Green Space Detection'', ''Proximity Analysis'']"
  by (simp add: generateWorkflowSteps_def)

lemma heat_template:
  "\<not> includes_str (toLowerCase query) ''flood'' \<Longrightarrow>
   \<not> includes_str (toLowerCase query) ''park'' \<Longrightarrow>
   \<not> includes_str (toLowerCase query) ''green'' \<Longrightarrow>
   includes_str (toLowerCase query) ''heat'' \<Longrightarrow>
     map ws_operation (generateWorkflowSteps query) =
       [''Land Surface Temperature'', ''Urban Heat Island Detection'']"
  by (simp add: generateWorkflowSteps_def)

lemma no_template:
  "\<not> includes_str (toLowerCase query) ''flood'' \<Longrightarrow>
   \<not> includes_str (toLowerCase query) ''park'' \<Longrightarrow>
   \<not> includes_str (toLowerCase query) ''green'' \<Longrightarrow>
   \<not> includes_str (toLowerCase query) ''heat'' \<Longrightarrow>
     generateWorkflowSteps query = []"
  by (simp add: generateWorkflowSteps_def)

lemma template_steps_pending:
  "step \<in> set (generateWorkflowSteps query) \<Longrightarrow>
     ws_status step = Pending \<and> ws_editable step = Some True \<and> ws_result step = None"
  unfolding generateWorkflowSteps_def Let_def
  by (auto split: if_splits)

lemma sample_flood_lower:
  "includes_str (toLowerCase ''Find flood-risk zones near Sabarmati River'') ''flood''"
  by code_simp

text \<open>
  Claim C1. The template selector is a function of the query text alone, and it follows
  the keyword table on the lower-cased query, the first match winning: "flood" gives the
  three steps Data Collection, Hydrological Analysis, Risk Zone Classification in this
  order; otherwise "park" or "green" gives the two steps Green Space Detection, Proximity
  Analysis; otherwise "heat" gives the two steps Land Surface Temperature, Urban Heat
  Island Detection; otherwise the sequence is empty. Every step returned is pending and
  editable.
\<close>

theorem C1_template_selector_table:
  "(includes_str (toLowerCase query) ''flood'' \<longrightarrow>
      map ws_operation (generateWorkflowSteps query) =
        [''Data Collection'', ''Hydrological Analysis'', ''Risk Zone Classification''])
   \<and> (\<not> includes_str (toLowerCase query) ''flood'' \<and>
       (includes_str (toLowerCase query) ''park'' \<or> includes_str (toLowerCase query) ''green'') \<longrightarrow>
      map ws_operation (generateWorkflowSteps query) =
        [''Green Space Detection'', ''Proximity Analysis''])
   \<and> (\<not> includes_str (toLowerCase query) ''flood'' \<and>
       \<not> includes_str (toLowerCase query) ''park'' \<and>
       \<not> includes_str (toLowerCase query) ''green'' \<and>
       includes_str (toLowerCase query) ''heat'' \<longrightarrow>
      map ws_operation (generateWorkflowSteps query) =
        [''Land Surface Temperature'', ''Urban Heat Island Detection''])
   \<and> (\<not> includes_str (toLowerCase query) ''flood'' \<and>
       \<not> includes_str (toLowerCase query) ''park'' \<and>
       \<not> includes_str (toLowerCase query) ''green'' \<and>
       \<not> includes_str (toLowerCase query) ''heat'' \<longrightarrow>
      generateWorkflowSteps query = [])
   \<and> (\<forall>step \<in> set (generateWorkflowSteps query).
        ws_status step = Pending \<and> ws_editable step = Some True)"
proof (intro conjI impI ballI)
  fix step
  assume "step \<in> set (generateWorkflowSteps query)"
  then show "ws_status step = Pending" by (simp add: template_steps_pending)
next
  fix step
  assume "step \<in> set (generateWorkflowSteps query)"
  then show "ws_editable step = Some True" by (simp add: template_steps_pending)
qed (simp_all add: flood_template green_template heat_template no_template)

theorem C1_template_selector_table_witness:
  "includes_str (toLowerCase ''Find flood-risk zones near Sabarmati River'') ''flood''
   \<and> map ws_operation (generateWorkflowSteps ''Find flood-risk zones near Sabarmati River'') =
        [''Data Collection'', ''Hydrological Analysis'', ''Risk Zone Classification'']
   \<and> list_all (\<lambda>step. ws_status step = Pending \<and> ws_editable step = Some True)
        (generateWorkflowSteps ''Find flood-risk zones near Sabarmati River'')"
  using C1_template_selector_table [of "''Find flood-risk zones near Sabarmati River''"]
    sample_flood_lower
  by (simp add: list_all_iff)

section \<open>The error status is never assigned\<close>

lemma foldl_executeStep_inv:
  assumes "\<And>stepId a. P a \<Longrightarrow> P (handleExecuteStep queryId stepId a)" and "P s"
  shows "P (foldl (\<lambda>acc step. if ws_status step = Pending
                                then handleExecuteStep queryId (ws_id step) acc else acc) s steps)"
  using assms(2)
proof (induction steps arbitrary: s)
  case Nil
  then show ?case by simp
next
  case (Cons step steps)
  then show ?case by (simp add: assms(1))
qed

lemma no_error_submit: "no_error s \<Longrightarrow> no_error (handleSubmitQuery now stamp query s)"
  by (auto simp: no_error_def handleSubmitQuery_def Let_def dest: template_steps_pending)

lemma no_error_executeStep: "no_error s \<Longrightarrow> no_error (handleExecuteStep queryId stepId s)"
  by (auto simp: no_error_def handleExecuteStep_def)

lemma no_error_timers_upd: "no_error (s\<lparr>timers := ts\<rparr>) = no_error s"
  by (simp add: no_error_def)

lemma no_error_executeWorkflow:
  assumes "no_error s"
  shows "no_error (handleExecuteWorkflow queryId s)"
proof (cases "find (\<lambda>q. gq_id q = queryId) (queries s)")
  case None
  then show ?thesis using assms by (simp add: handleExecuteWorkflow_def)
next
  case (Some query)
  have "no_error (foldl (\<lambda>acc step. if ws_status step = Pending
                          then handleExecuteStep queryId (ws_id step) acc else acc) s (gq_steps query))"
    by (rule foldl_executeStep_inv [where P = no_error]) (simp_all add: no_error_executeStep assms)
  then show ?thesis
    by (simp add: handleExecuteWorkflow_def Some Let_def no_error_timers_upd)
qed

lemma no_error_callback: "no_error s \<Longrightarrow> no_error (timerCallback now t s)"
  by (cases t) (auto simp: no_error_def)

lemma no_error_fire: "no_error s \<Longrightarrow> no_error (fire i now s)"
  by (simp add: fire_def no_error_callback no_error_timers_upd)

lemma no_error_event: "no_error s \<Longrightarrow> \<not> isEdit e \<Longrightarrow> no_error (apply_event e s)"
  by (cases e)
    (simp_all add: no_error_submit no_error_executeStep no_error_executeWorkflow no_error_fire)

lemma no_error_run: "no_error s \<Longrightarrow> \<forall>e \<in> set es. \<not> isEdit e \<Longrightarrow> no_error (run es s)"
  by (induction es arbitrary: s) (simp_all add: no_error_event)

lemma no_error_init: "no_error init_state"
  by (simp add: no_error_def init_state_def)

text \<open>
  Claim C4. In every state reached from the empty initial state by submitQuery,
  executeStep and executeWorkflow events, their timers firing in any order, no workflow
  step has the status error and no query session has the status error.
\<close>

theorem C4_error_status_unreachable:
  assumes "\<forall>e \<in> set es. \<not> isEdit e"
  shows "\<forall>query \<in> set (queries (run es init_state)).
           gq_status query \<noteq> QError \<and> (\<forall>step \<in> set (gq_steps query). ws_status step \<noteq> Error)"
  using no_error_run [OF no_error_init assms] by (simp add: no_error_def)

theorem C4_error_status_unreachable_witness:
  "list_all (\<lambda>e. \<not> isEdit e)
     [SubmitQuery 5 6 ''urban heat'', ExecuteStep ''query-5'' ''step-1'', Fire 0 9]
   \<and> map gq_status (queries (run [SubmitQuery 5 6 ''urban heat'',
         ExecuteStep ''query-5'' ''step-1'', Fire 0 9] init_state)) = [Processing]
   \<and> map (map ws_status \<circ> gq_steps) (queries (run [SubmitQuery 5 6 ''urban heat'',
         ExecuteStep ''query-5'' ''step-1'', Fire 0 9] init_state)) = [[Completed, Pending]]
   \<and> list_all (\<lambda>query. gq_status query \<noteq> QError \<and>
                 list_all (\<lambda>step. ws_status step \<noteq> Error) (gq_steps query))
        (queries (run [SubmitQuery 5 6 ''urban heat'',
           ExecuteStep ''query-5'' ''step-1'', Fire 0 9] init_state))"
proof -
  have a: "\<forall>e \<in> set [SubmitQuery 5 6 ''urban heat'', ExecuteStep ''query-5'' ''step-1'', Fire 0 9].
             \<not> isEdit e"
    by simp
  have b: "map gq_status (queries (run [SubmitQuery 5 6 ''urban heat'',
         ExecuteStep ''query-5'' ''step-1'', Fire 0 9] init_state)) = [Processing]"
    by code_simp
  have c: "map (map ws_status \<circ> gq_steps) (queries (run [SubmitQuery 5 6 ''urban heat'',
         ExecuteStep ''query-5'' ''step-1'', Fire 0 9] init_state)) = [[Completed, Pending]]"
    by code_simp
  show ?thesis
    using C4_error_status_unreachable [OF a] a b c by (simp add: list_all_iff)
qed

section \<open>Editing a step twice\<close>

lemma spread_updates_twice:
  "spread_updates (spread_updates step updates) updates = spread_updates step updates"
  by (simp add: spread_updates_def split: option.splits)

text \<open>
  Claim C9. editStep is idempotent: for every state, session id, step id and updates
  record, applying editStep twice with the same updates gives the same state (hence the
  same parameter mapping and the same whole step) as applying it once.
\<close>

theorem C9_editStep_idempotent:
  "handleEditStep queryId stepId updates (handleEditStep queryId stepId updates s)
     = handleEditStep queryId stepId updates s"
  by (simp add: handleEditStep_def spread_updates_twice comp_def cong: if_cong)

section \<open>Editing and executing one step\<close>

lemma editStep_query_at:
  "i < length (queries s) \<Longrightarrow>
   queries (handleEditStep queryId stepId updates s) ! i =
     (if gq_id (queries s ! i) = queryId
      then (queries s ! i)\<lparr>gq_steps := map (\<lambda>step.
              if ws_id step = stepId then spread_updates step updates else step)
              (gq_steps (queries s ! i))\<rparr>
      else queries s ! i)"
  by (simp add: handleEditStep_def)

lemma executeStep_query_at:
  "i < length (queries s) \<Longrightarrow>
   queries (handleExecuteStep queryId stepId s) ! i =
     (if gq_id (queries s ! i) = queryId
      then (queries s ! i)\<lparr>gq_steps := map (\<lambda>step.
              if ws_id step = stepId then step\<lparr>ws_status := Executing\<rparr> else step)
              (gq_steps (queries s ! i))\<rparr>
      else queries s ! i)"
  by (simp add: handleExecuteStep_def)

lemma editStep_frame:
  "length (queries (handleEditStep queryId stepId updates s)) = length (queries s)"
  "mapLayers (handleEditStep queryId stepId updates s) = mapLayers s"
  "timers (handleEditStep queryId stepId updates s) = timers s"
  by (simp_all add: handleEditStep_def)

lemma executeStep_frame:
  "length (queries (handleExecuteStep queryId stepId s)) = length (queries s)"
  "mapLayers (handleExecuteStep queryId stepId s) = mapLayers s"
  "timers (handleExecuteStep queryId stepId s) = timers s @ [StepTimer queryId stepId]"
  by (simp_all add: handleExecuteStep_def)

text \<open>
  Claim C10. editStep and the synchronous part of executeStep preserve the frame: for
  every queryId, stepId and updates, the operation changes at most the steps whose id is
  stepId inside the sessions whose id is queryId; every other step of such a session,
  every other session, the order and the length of the session list, and the map-layer
  list are unchanged.
\<close>

theorem C10_frame:
  "frame_preserved queryId stepId s (handleEditStep queryId stepId updates s)
   \<and> frame_preserved queryId stepId s (handleExecuteStep queryId stepId s)"
  by (simp add: frame_preserved_def editStep_frame executeStep_frame
        editStep_query_at executeStep_query_at)

theorem C10_frame_witness:
  "length (queries flood_completed) = 1
   \<and> gq_id (queries flood_completed ! 0) = ''query-5''
   \<and> length (gq_steps (queries flood_completed ! 0)) = 3
   \<and> ws_id (gq_steps (queries flood_completed ! 0) ! 1) = ''step-2''
   \<and> gq_steps (queries (handleEditStep ''query-5'' ''step-1'' flood_updates flood_completed) ! 0) ! 1
       = gq_steps (queries flood_completed ! 0) ! 1
   \<and> gq_steps (queries (handleExecuteStep ''query-5'' ''step-1'' flood_completed) ! 0) ! 1
       = gq_steps (queries flood_completed ! 0) ! 1
   \<and> mapLayers (handleEditStep ''query-5'' ''step-1'' flood_updates flood_completed)
       = mapLayers flood_completed"
proof -
  have a: "length (queries flood_completed) = 1" by code_simp
  have b: "gq_id (queries flood_completed ! 0) = ''query-5''" by code_simp
  have c: "length (gq_steps (queries flood_completed ! 0)) = 3" by code_simp
  have d: "ws_id (gq_steps (queries flood_completed ! 0) ! 1) = ''step-2''" by code_simp
  show ?thesis
    using C10_frame [of "''query-5''" "''step-1''" flood_completed flood_updates] a b c d
    by (simp add: frame_preserved_def)
qed

text \<open>
  Claim C6 says that editStep leaves the parameter mapping of a step unchanged when the
  step is executing, completed or in error. The handler has no guard on the status: on
  the completed first step of the heat session, an edit of \<open>cloud_cover\<close> from 20 to 50
  goes through.
\<close>

theorem C6_counterexample:
  "ws_status (gq_steps (queries heat_step_done ! 0) ! 0) = Completed
   \<and> ws_parameters (gq_steps (queries heat_step_done ! 0) ! 0)
       = [(''date_range'', PStr ''2023-04-01_2023-06-30''), (''cloud_cover'', PNum 20)]
   \<and> ws_parameters (gq_steps (queries
         (handleEditStep ''query-5'' ''step-1'' example_updates heat_step_done) ! 0) ! 0)
       = [(''date_range'', PStr ''2023-04-01_2023-06-30''), (''cloud_cover'', PNum 50)]"
  by code_simp

text \<open>
  Claim C6, amended. The parameters of a workflow step are editable at every status:
  for every step of an addressed session whose id is stepId, whatever its status,
  editStep sets the parameter mapping to the one the updates carry, and leaves the
  mapping as it was when the updates carry none.
\<close>

theorem C6_amended:
  assumes "i < length (queries s)" and "gq_id (queries s ! i) = queryId"
    and "j < length (gq_steps (queries s ! i))" and "ws_id (gq_steps (queries s ! i) ! j) = stepId"
  shows "ws_parameters (gq_steps (queries (handleEditStep queryId stepId updates s) ! i) ! j) =
           (case upd_parameters updates of
              None \<Rightarrow> ws_parameters (gq_steps (queries s ! i) ! j)
            | Some p \<Rightarrow> p)"
  using assms by (simp add: editStep_query_at spread_updates_def)

theorem C6_amended_witness:
  "ws_status (gq_steps (queries heat_step_done ! 0) ! 0) = Completed
   \<and> ws_parameters (gq_steps (queries
         (handleEditStep ''query-5'' ''step-1'' example_updates heat_step_done) ! 0) ! 0)
       = [(''date_range'', PStr ''2023-04-01_2023-06-30''), (''cloud_cover'', PNum 50)]"
proof -
  have a: "0 < length (queries heat_step_done)" by code_simp
  have b: "gq_id (queries heat_step_done ! 0) = ''query-5''" by code_simp
  have c: "0 < length (gq_steps (queries heat_step_done ! 0))" by code_simp
  have d: "ws_id (gq_steps (queries heat_step_done ! 0) ! 0) = ''step-1''" by code_simp
  have e: "ws_status (gq_steps (queries heat_step_done ! 0) ! 0) = Completed" by code_simp
  show ?thesis
    using C6_amended [OF a b c d, of example_updates] e by (simp add: example_updates_def)
qed

text \<open>
  Claim C3. For every step whose status is pending, executeStep on that step sets its
  status to executing at once and schedules one timer; when that timer fires, the step's
  status is completed and its result is the constant payload
  \<open>{message: "Step completed successfully", data: "sample_output.geojson"}\<close>, the same
  for every step and for every parameter mapping the step holds; the other fields of the
  step stay as they were.
\<close>

theorem C3_executeStep:
  assumes "i < length (queries s)" and "gq_id (queries s ! i) = queryId"
    and "j < length (gq_steps (queries s ! i))" and "ws_id (gq_steps (queries s ! i) ! j) = stepId"
    and "ws_status (gq_steps (queries s ! i) ! j) = Pending"
  shows "gq_steps (queries (handleExecuteStep queryId stepId s) ! i) ! j =
           (gq_steps (queries s ! i) ! j)\<lparr>ws_status := Executing\<rparr>
       \<and> timers (handleExecuteStep queryId stepId s) = timers s @ [StepTimer queryId stepId]
       \<and> gq_steps (queries (fire (length (timers s)) now (handleExecuteStep queryId stepId s)) ! i) ! j =
           (gq_steps (queries s ! i) ! j)\<lparr>ws_status := Completed,
              ws_result := Some \<lparr>message = ''Step completed successfully'',
                                 data = ''sample_output.geojson''\<rparr>\<rparr>"
  using assms by (simp add: handleExecuteStep_def fire_def)

theorem C3_executeStep_witness:
  "ws_status (gq_steps (queries heat_submitted ! 0) ! 0) = Pending
   \<and> ws_status (gq_steps (queries (handleExecuteStep ''query-5'' ''step-1'' heat_submitted) ! 0) ! 0)
       = Executing
   \<and> ws_status (gq_steps (queries (fire (length (timers heat_submitted)) 9
         (handleExecuteStep ''query-5'' ''step-1'' heat_submitted)) ! 0) ! 0) = Completed
   \<and> ws_result (gq_steps (queries (fire (length (timers heat_submitted)) 9
         (handleExecuteStep ''query-5'' ''step-1'' heat_submitted)) ! 0) ! 0)
       = Some \<lparr>message = ''Step completed successfully'', data = ''sample_output.geojson''\<rparr>"
proof -
  have a: "0 < length (queries heat_submitted)" by code_simp
  have b: "gq_id (queries heat_submitted ! 0) = ''query-5''" by code_simp
  have c: "0 < length (gq_steps (queries heat_submitted ! 0))" by code_simp
  have d: "ws_id (gq_steps (queries heat_submitted ! 0) ! 0) = ''step-1''" by code_simp
  have e: "ws_status (gq_steps (queries heat_submitted ! 0) ! 0) = Pending" by code_simp
  show ?thesis
    using C3_executeStep [OF a b c d e, of 9] e by simp
qed

section \<open>Executing a whole workflow\<close>

lemma foldl_executeStep_mapLayers:
  "mapLayers (foldl (\<lambda>acc step. if ws_status step = Pending
                       then handleExecuteStep queryId (ws_id step) acc else acc) s steps) = mapLayers s"
  by (rule foldl_executeStep_inv [where P = "\<lambda>a. mapLayers a = mapLayers s"])
    (simp_all add: executeStep_frame)

lemma fire_last:
  "length (timers s) = Suc n \<Longrightarrow>
   fire n now s = timerCallback now (last (timers s)) (s\<lparr>timers := butlast (timers s)\<rparr>)"
  by (cases "timers s" rule: rev_cases) (simp_all add: fire_def nth_append)

text \<open>
  Claim C8. For every session whose query text contains "park" and neither "flood" nor
  "green" (lower-cased), the steps come from the two-step green-space template, and yet
  the layer that executeWorkflow appends when its timer fires has the type heat-island
  and the color "#f59e0b": the keyword table of the layer does not know "park".
\<close>

theorem C8_park_layer_is_heat_island:
  assumes "find (\<lambda>q. gq_id q = queryId) (queries s) = Some query"
    and "includes_str (toLowerCase (gq_query query)) ''park''"
    and "\<not> includes_str (toLowerCase (gq_query query)) ''flood''"
    and "\<not> includes_str (toLowerCase (gq_query query)) ''green''"
  shows "map ws_operation (generateWorkflowSteps (gq_query query)) =
           [''Green Space Detection'', ''Proximity Analysis'']
       \<and> last (timers (handleExecuteWorkflow queryId s)) = WorkflowTimer queryId query
       \<and> mapLayers (fire (length (timers (handleExecuteWorkflow queryId s)) - 1) now
                      (handleExecuteWorkflow queryId s))
           = mapLayers s @ [sampleLayer now query]
       \<and> ml_type (sampleLayer now query) = HeatIsland
       \<and> ml_color (sampleLayer now query) = ''#f59e0b''"
proof -
  let ?s1 = "foldl (\<lambda>acc step. if ws_status step = Pending
                       then handleExecuteStep queryId (ws_id step) acc else acc) s (gq_steps query)"
  have w: "handleExecuteWorkflow queryId s = ?s1\<lparr>timers := timers ?s1 @ [WorkflowTimer queryId query]\<rparr>"
    using assms(1) by (simp add: handleExecuteWorkflow_def Let_def)
  have t: "last (timers (handleExecuteWorkflow queryId s)) = WorkflowTimer queryId query"
    by (simp add: w)
  have len: "length (timers (handleExecuteWorkflow queryId s)) = Suc (length (timers ?s1))"
    by (simp add: w)
  have "mapLayers (fire (length (timers ?s1)) now (handleExecuteWorkflow queryId s))
          = mapLayers (handleExecuteWorkflow queryId s) @ [sampleLayer now query]"
    by (simp add: fire_last [OF len] t)
  also have "mapLayers (handleExecuteWorkflow queryId s) = mapLayers s"
    by (simp add: w foldl_executeStep_mapLayers)
  finally have l: "mapLayers (fire (length (timers (handleExecuteWorkflow queryId s)) - 1) now
                      (handleExecuteWorkflow queryId s)) = mapLayers s @ [sampleLayer now query]"
    by (simp add: len)
  have g: "map ws_operation (generateWorkflowSteps (gq_query query)) =
           [''Green Space Detection'', ''Proximity Analysis'']"
    using assms by (simp add: green_template)
  have ty: "ml_type (sampleLayer now query) = HeatIsland"
    using assms by (simp add: sampleLayer_def)
  have co: "ml_color (sampleLayer now query) = ''#f59e0b''"
    using assms by (simp add: sampleLayer_def)
  show ?thesis using g t l ty co by simp
qed

theorem C8_park_layer_is_heat_island_witness:
  "map ws_operation (gq_steps (hd (queries parks_submitted))) =
      [''Green Space Detection'', ''Proximity Analysis'']
   \<and> map ml_type (mapLayers (fire (length (timers (handleExecuteWorkflow ''query-5'' parks_submitted)) - 1) 9
                      (handleExecuteWorkflow ''query-5'' parks_submitted))) = [HeatIsland]
   \<and> map ml_color (mapLayers (fire (length (timers (handleExecuteWorkflow ''query-5'' parks_submitted)) - 1) 9
                      (handleExecuteWorkflow ''query-5'' parks_submitted))) = [''#f59e0b'']"
proof -
  have q: "queries parks_submitted =
            [\<lparr>gq_id = ''query-5'', gq_query = ''Locate parks within 2km of Kankaria Lake'',
              gq_timestamp = 6,
              gq_steps = generateWorkflowSteps ''Locate parks within 2km of Kankaria Lake'',
              gq_status = Processing\<rparr>]"
    by code_simp
  have m: "mapLayers parks_submitted = []" by code_simp
  have a: "find (\<lambda>q. gq_id q = ''query-5'') (queries parks_submitted) = Some (hd (queries parks_submitted))"
    by (simp add: q)
  have b: "includes_str (toLowerCase (gq_query (hd (queries parks_submitted)))) ''park''"
    unfolding q by code_simp
  have c: "\<not> includes_str (toLowerCase (gq_query (hd (queries parks_submitted)))) ''flood''"
    unfolding q by code_simp
  have d: "\<not> includes_str (toLowerCase (gq_query (hd (queries parks_submitted)))) ''green''"
    unfolding q by code_simp
  show ?thesis
    using C8_park_layer_is_heat_island [OF a b c d, of 9] m by (simp add: q)
qed

lemma fire_all_timers:
  assumes "i1 < 4" and "i2 < 3" and "i3 < 2"
    and "ws_id a \<noteq> ws_id b" and "ws_id a \<noteq> ws_id c" and "ws_id b \<noteq> ws_id c"
    and "ws_id b \<noteq> ws_id a" and "ws_id c \<noteq> ws_id a" and "ws_id c \<noteq> ws_id b"
    and "gq_id q = queryId"
    and "s1 = \<lparr>queries = [q\<lparr>gq_steps := [a, b, c]\<rparr>], mapLayers = [],
               timers = [StepTimer queryId (ws_id a), StepTimer queryId (ws_id b),
                         StepTimer queryId (ws_id c), WorkflowTimer queryId q0]\<rparr>"
    and "s = fire 0 n4 (fire i3 n3 (fire i2 n2 (fire i1 n1 s1)))"
    and "r = Some \<lparr>message = ''Step completed successfully'', data = ''sample_output.geojson''\<rparr>"
  shows "timers s = []"
    and "queries s = [q\<lparr>gq_steps := [a\<lparr>ws_status := Completed, ws_result := r\<rparr>,
                                       b\<lparr>ws_status := Completed, ws_result := r\<rparr>,
                                       c\<lparr>ws_status := Completed, ws_result := r\<rparr>],
                         gq_status := QCompleted\<rparr>]"
    and "mapLayers s \<in> {[sampleLayer n1 q0], [sampleLayer n2 q0], [sampleLayer n3 q0], [sampleLayer n4 q0]}"
proof -
  have c1: "i1 = 0 \<or> i1 = 1 \<or> i1 = 2 \<or> i1 = 3" using assms(1) by arith
  have c2: "i2 = 0 \<or> i2 = 1 \<or> i2 = 2" using assms(2) by arith
  have c3: "i3 = 0 \<or> i3 = 1" using assms(3) by arith
  note facts = assms(4-13)
  show "timers s = []"
    using c1 c2 c3 by (elim disjE) (simp_all add: facts fire_def)
  show "queries s = [q\<lparr>gq_steps := [a\<lparr>ws_status := Completed, ws_result := r\<rparr>,
                                       b\<lparr>ws_status := Completed, ws_result := r\<rparr>,
                                       c\<lparr>ws_status := Completed, ws_result := r\<rparr>],
                         gq_status := QCompleted\<rparr>]"
    using c1 c2 c3 by (elim disjE) (simp_all add: facts fire_def)
  show "mapLayers s \<in> {[sampleLayer n1 q0], [sampleLayer n2 q0], [sampleLayer n3 q0], [sampleLayer n4 q0]}"
    using c1 c2 c3 by (elim disjE) (simp_all add: facts fire_def)
qed


lemma flood_steps_shape:
  assumes "includes_str (toLowerCase query) ''flood''"
  obtains a b c where "generateWorkflowSteps query = [a, b, c]"
    and "ws_id a = ''step-1''" and "ws_id b = ''step-2''" and "ws_id c = ''step-3''"
    and "ws_status a = Pending" and "ws_status b = Pending" and "ws_status c = Pending"
  using assms by (simp add: generateWorkflowSteps_def)

text \<open>
  Claim C2. End-to-end scenario A: the session created from "Find flood-risk zones near
  Sabarmati River" has three pending steps; after executeWorkflow four timers are
  pending, and once all four have fired, in whatever order, every step is completed with
  the result \<open>{message: "Step completed successfully", data: "sample_output.geojson"}\<close>,
  the session is completed, and exactly one map layer has been appended, of category
  flood-risk and color "#dc2626".
\<close>

theorem C2_scenario_A:
  assumes "ia < 4" and "ib < 3" and "ic < 2"
    and "s0 = handleSubmitQuery now stamp ''Find flood-risk zones near Sabarmati River'' init_state"
    and "s1 = handleExecuteWorkflow (''query-'' @ decimal now) s0"
    and "s = fire 0 nd (fire ic nc (fire ib nb (fire ia na s1)))"
  shows "map ws_status (gq_steps (hd (queries s0))) = [Pending, Pending, Pending]
       \<and> mapLayers s0 = []
       \<and> length (timers s1) = 4
       \<and> timers s = []
       \<and> length (queries s) = 1
       \<and> map ws_status (gq_steps (hd (queries s))) = [Completed, Completed, Completed]
       \<and> map ws_result (gq_steps (hd (queries s))) =
            replicate 3 (Some \<lparr>message = ''Step completed successfully'',
                                data = ''sample_output.geojson''\<rparr>)
       \<and> gq_status (hd (queries s)) = QCompleted
       \<and> length (mapLayers s) = 1
       \<and> ml_type (hd (mapLayers s)) = FloodRisk
       \<and> ml_color (hd (mapLayers s)) = ''#dc2626''"
proof -
  obtain a b c where abc: "generateWorkflowSteps ''Find flood-risk zones near Sabarmati River'' = [a, b, c]"
    and ids: "ws_id a = ''step-1''" "ws_id b = ''step-2''" "ws_id c = ''step-3''"
    and pend: "ws_status a = Pending" "ws_status b = Pending" "ws_status c = Pending"
    using flood_steps_shape [OF sample_flood_lower] by blast
  define q0 where "q0 = \<lparr>gq_id = ''query-'' @ decimal now,
      gq_query = ''Find flood-risk zones near Sabarmati River'', gq_timestamp = stamp,
      gq_steps = [a, b, c], gq_status = Processing\<rparr>"
  define r where "r = Some \<lparr>message = ''Step completed successfully'', data = ''sample_output.geojson''\<rparr>"
  have q0_id: "gq_id q0 = ''query-'' @ decimal now" and q0_steps: "gq_steps q0 = [a, b, c]"
    and q0_query: "gq_query q0 = ''Find flood-risk zones near Sabarmati River''"
    by (simp_all add: q0_def)
  have s0: "s0 = \<lparr>queries = [q0], mapLayers = [], timers = []\<rparr>"
    by (simp add: assms(4) handleSubmitQuery_def init_state_def abc q0_def)
  have s1: "s1 = \<lparr>queries = [q0\<lparr>gq_steps := [a\<lparr>ws_status := Executing\<rparr>,
                     b\<lparr>ws_status := Executing\<rparr>, c\<lparr>ws_status := Executing\<rparr>]\<rparr>],
                 mapLayers = [],
                 timers = [StepTimer (''query-'' @ decimal now) (ws_id (a\<lparr>ws_status := Executing\<rparr>)),
                           StepTimer (''query-'' @ decimal now) (ws_id (b\<lparr>ws_status := Executing\<rparr>)),
                           StepTimer (''query-'' @ decimal now) (ws_id (c\<lparr>ws_status := Executing\<rparr>)),
                           WorkflowTimer (''query-'' @ decimal now) q0]\<rparr>"
    by (simp add: assms(5) s0 handleExecuteWorkflow_def handleExecuteStep_def Let_def
        q0_id q0_steps ids pend)
  note fin = fire_all_timers [OF assms(1-3) _ _ _ _ _ _ q0_id s1 assms(6) r_def]
  have t: "timers s = []"
    by (rule fin(1)) (simp_all add: ids)
  have q: "queries s = [q0\<lparr>gq_steps := [a\<lparr>ws_status := Executing\<rparr>\<lparr>ws_status := Completed, ws_result := r\<rparr>,
                                       b\<lparr>ws_status := Executing\<rparr>\<lparr>ws_status := Completed, ws_result := r\<rparr>,
                                       c\<lparr>ws_status := Executing\<rparr>\<lparr>ws_status := Completed, ws_result := r\<rparr>],
                         gq_status := QCompleted\<rparr>]"
    by (rule fin(2)) (simp_all add: ids)
  have l: "mapLayers s \<in> {[sampleLayer na q0], [sampleLayer nb q0], [sampleLayer nc q0], [sampleLayer nd q0]}"
    by (rule fin(3)) (simp_all add: ids)
  have ty: "ml_type (sampleLayer n q0) = FloodRisk" and co: "ml_color (sampleLayer n q0) = ''#dc2626''" for n
    by (simp_all add: sampleLayer_def q0_query sample_flood_lower)
  have l1: "length (mapLayers s) = 1" and l2: "ml_type (hd (mapLayers s)) = FloodRisk"
    and l3: "ml_color (hd (mapLayers s)) = ''#dc2626''"
    using l ty co by auto
  have p1: "map ws_status (gq_steps (hd (queries s0))) = [Pending, Pending, Pending]"
    by (simp add: s0 q0_steps pend)
  have p2: "mapLayers s0 = []" by (simp add: s0)
  have p3: "length (timers s1) = 4" by (simp add: s1)
  have p4: "map ws_status (gq_steps (hd (queries s))) = [Completed, Completed, Completed]"
    by (simp add: q)
  have p5: "map ws_result (gq_steps (hd (queries s))) =
            replicate 3 (Some \<lparr>message = ''Step completed successfully'',
                                data = ''sample_output.geojson''\<rparr>)"
    by (simp add: q r_def numeral_3_eq_3)
  have p6: "gq_status (hd (queries s)) = QCompleted" by (simp add: q)
  have p7: "length (queries s) = 1" by (simp add: q)
  show ?thesis
    using p1 p2 p3 t p7 p4 p5 p6 l1 l2 l3 by simp
qed

theorem C2_scenario_A_witness:
  "map ws_status (gq_steps (hd (queries flood_completed))) = [Completed, Completed, Completed]
   \<and> map ws_result (gq_steps (hd (queries flood_completed))) =
        replicate 3 (Some \<lparr>message = ''Step completed successfully'',
                            data = ''sample_output.geojson''\<rparr>)
   \<and> gq_status (hd (queries flood_completed)) = QCompleted
   \<and> length (mapLayers flood_completed) = 1
   \<and> ml_type (hd (mapLayers flood_completed)) = FloodRisk
   \<and> ml_color (hd (mapLayers flood_completed)) = ''#dc2626''"
proof -
  have d: "decimal 5 = ''5''" by code_simp
  have "flood_completed =
      fire 0 10 (fire 0 7 (fire 0 7 (fire 0 7
        (handleExecuteWorkflow (''query-'' @ decimal 5)
          (handleSubmitQuery 5 6 ''Find flood-risk zones near Sabarmati River'' init_state)))))"
    by (simp add: flood_completed_def d)
  from C2_scenario_A [where ia = 0 and ib = 0 and ic = 0, OF _ _ _ refl refl this]
  show ?thesis by simp
qed

section \<open>What a completed session keeps\<close>

lemma same_session_refl: "same_session q q"
  by (simp add: same_session_def)

lemma same_session_trans: "same_session q q' \<Longrightarrow> same_session q' q'' \<Longrightarrow> same_session q q''"
  by (simp add: same_session_def)

lemma sessions_kept_refl: "sessions_kept s s"
  by (simp add: sessions_kept_def same_session_refl)

lemma sessions_kept_trans:
  "sessions_kept s s' \<Longrightarrow> sessions_kept s' s'' \<Longrightarrow> sessions_kept s s''"
  unfolding sessions_kept_def
  by (meson le_trans less_le_trans same_session_trans)

lemma sessions_kept_timers_upd: "sessions_kept s (s'\<lparr>timers := ts\<rparr>) = sessions_kept s s'"
  by (simp add: sessions_kept_def)

lemma sessions_kept_submit: "sessions_kept s (handleSubmitQuery now stamp query s)"
  by (simp add: sessions_kept_def same_session_def handleSubmitQuery_def Let_def nth_append)

lemma sessions_kept_edit: "sessions_kept s (handleEditStep queryId stepId updates s)"
  by (simp add: sessions_kept_def same_session_def handleEditStep_def)

lemma sessions_kept_executeStep: "sessions_kept s (handleExecuteStep queryId stepId s)"
  by (simp add: sessions_kept_def same_session_def handleExecuteStep_def)

lemma sessions_kept_executeWorkflow: "sessions_kept s (handleExecuteWorkflow queryId s)"
proof (cases "find (\<lambda>q. gq_id q = queryId) (queries s)")
  case None
  then show ?thesis by (simp add: handleExecuteWorkflow_def sessions_kept_refl)
next
  case (Some query)
  have "sessions_kept s (foldl (\<lambda>acc step. if ws_status step = Pending
                          then handleExecuteStep queryId (ws_id step) acc else acc) s (gq_steps query))"
    by (rule foldl_executeStep_inv [where P = "sessions_kept s"])
      (auto intro: sessions_kept_trans sessions_kept_executeStep sessions_kept_refl)
  then show ?thesis
    by (simp add: handleExecuteWorkflow_def Some Let_def sessions_kept_timers_upd)
qed

lemma sessions_kept_callback: "sessions_kept s (timerCallback now t s)"
  by (cases t) (simp_all add: sessions_kept_def same_session_def)

lemma sessions_kept_fire: "sessions_kept s (fire i now s)"
proof (cases "i < length (timers s)")
  case True
  have "sessions_kept (s\<lparr>timers := take i (timers s) @ drop (Suc i) (timers s)\<rparr>)
          (fire i now s)"
    using True by (simp add: fire_def sessions_kept_callback)
  then show ?thesis by (simp add: sessions_kept_def)
next
  case False
  then show ?thesis by (simp add: fire_def sessions_kept_refl)
qed

lemma sessions_kept_event: "sessions_kept s (apply_event e s)"
  by (cases e)
    (simp_all add: sessions_kept_submit sessions_kept_edit sessions_kept_executeStep
      sessions_kept_executeWorkflow sessions_kept_fire)

lemma sessions_kept_run: "sessions_kept s (run es s)"
proof (induction es arbitrary: s)
  case Nil
  show ?case by (simp add: sessions_kept_refl)
next
  case (Cons e es)
  show ?case
    using sessions_kept_trans [OF sessions_kept_event Cons.IH] by simp
qed

text \<open>
  Claim C7 says that no operation changes anything of a session whose status is
  completed. On the completed flood session, editStep still replaces the parameters of
  the first step, and executeStep still sets that completed step back to executing.
\<close>

theorem C7_counterexample:
  "gq_status (hd (queries flood_completed)) = QCompleted
   \<and> ws_parameters (gq_steps (hd (queries flood_completed)) ! 0)
       = [(''resolution'', PStr ''30m''), (''bounds'', PStr ''ahmedabad_boundary'')]
   \<and> ws_parameters (gq_steps (hd (queries
         (apply_event (EditStep ''query-5'' ''step-1'' flood_updates) flood_completed))) ! 0)
       = [(''resolution'', PStr ''10m''), (''bounds'', PStr ''ahmedabad_boundary'')]
   \<and> ws_status (gq_steps (hd (queries flood_completed)) ! 0) = Completed
   \<and> ws_status (gq_steps (hd (queries
         (apply_event (ExecuteStep ''query-5'' ''step-1'') flood_completed))) ! 0) = Executing"
  by code_simp

text \<open>
  Claim C7, amended. Once a session is completed, no sequence of operations (submitQuery,
  editStep, executeStep, executeWorkflow, timers firing) changes its position in the
  session list, its id, its query text, its timestamp, its status or the number of its
  steps. The fields of its steps are not protected.
\<close>

theorem C7_amended:
  assumes "i < length (queries s)" and "gq_status (queries s ! i) = QCompleted"
  shows "i < length (queries (run es s))
       \<and> gq_id (queries (run es s) ! i) = gq_id (queries s ! i)
       \<and> gq_query (queries (run es s) ! i) = gq_query (queries s ! i)
       \<and> gq_timestamp (queries (run es s) ! i) = gq_timestamp (queries s ! i)
       \<and> gq_status (queries (run es s) ! i) = QCompleted
       \<and> length (gq_steps (queries (run es s) ! i)) = length (gq_steps (queries s ! i))"
  using sessions_kept_run [of s es] assms
  by (simp add: sessions_kept_def same_session_def)

theorem C7_amended_witness:
  "gq_status (queries flood_completed ! 0) = QCompleted
   \<and> gq_query (queries (run [EditStep ''query-5'' ''step-1'' flood_updates,
                              ExecuteStep ''query-5'' ''step-2'',
                              ExecuteWorkflow ''query-5'', Fire 0 11, Fire 0 12] flood_completed) ! 0)
       = gq_query (queries flood_completed ! 0)
   \<and> gq_status (queries (run [EditStep ''query-5'' ''step-1'' flood_updates,
                              ExecuteStep ''query-5'' ''step-2'',
                              ExecuteWorkflow ''query-5'', Fire 0 11, Fire 0 12] flood_completed) ! 0)
       = QCompleted
   \<and> length (gq_steps (queries (run [EditStep ''query-5'' ''step-1'' flood_updates,
                              ExecuteStep ''query-5'' ''step-2'',
                              ExecuteWorkflow ''query-5'', Fire 0 11, Fire 0 12] flood_completed) ! 0))
       = length (gq_steps (queries flood_completed ! 0))"
proof -
  have a: "0 < length (queries flood_completed)" by code_simp
  have b: "gq_status (queries flood_completed ! 0) = QCompleted" by code_simp
  show ?thesis
    using C7_amended [OF a b, where es = "[EditStep ''query-5'' ''step-1'' flood_updates,
        ExecuteStep ''query-5'' ''step-2'', ExecuteWorkflow ''query-5'', Fire 0 11, Fire 0 12]"] b
    by blast
qed

section \<open>A session without steps\<close>

lemma sessions_kept_ids:
  assumes "sessions_kept s s'"
  shows "map gq_id (queries s) = take (length (queries s)) (map gq_id (queries s'))"
  using assms
  by (intro nth_equalityI) (simp_all add: sessions_kept_def same_session_def)

lemma sessions_kept_distinct:
  assumes "sessions_kept s s'" and "distinct (map gq_id (queries s'))"
  shows "distinct (map gq_id (queries s))"
  using sessions_kept_ids [OF assms(1)] distinct_take [OF assms(2)] by simp

lemma ui_inv_timers_upd:
  "ui_inv s \<Longrightarrow> set ts \<subseteq> set (timers s) \<Longrightarrow> ui_inv (s\<lparr>timers := ts\<rparr>)"
  by (auto simp: ui_inv_def)

lemma ui_inv_submit: "ui_inv s \<Longrightarrow> ui_inv (handleSubmitQuery now stamp query s)"
  by (auto simp: ui_inv_def handleSubmitQuery_def Let_def)

lemma ui_inv_edit: "ui_inv s \<Longrightarrow> ui_inv (handleEditStep queryId stepId updates s)"
  by (auto simp: ui_inv_def handleEditStep_def)

lemma ui_inv_executeStep: "ui_inv s \<Longrightarrow> ui_inv (handleExecuteStep queryId stepId s)"
  by (auto simp: ui_inv_def handleExecuteStep_def)

lemma ui_inv_add_workflow_timer:
  "ui_inv s \<Longrightarrow> generateWorkflowSteps (gq_query q) \<noteq> [] \<Longrightarrow>
   ui_inv (s\<lparr>timers := timers s @ [WorkflowTimer queryId q]\<rparr>)"
  by (auto simp: ui_inv_def)

lemma find_distinct_id:
  assumes "distinct (map gq_id qs)" and "q \<in> set qs"
  shows "find (\<lambda>x. gq_id x = gq_id q) qs = Some q"
  using assms by (induction qs) (auto simp: rev_image_eqI)

lemma ui_inv_executeWorkflow:
  assumes "ui_inv s" and "ui_offers s (ExecuteWorkflow queryId)"
    and "distinct (map gq_id (queries s))"
  shows "ui_inv (handleExecuteWorkflow queryId s)"
proof -
  from assms(2) obtain q where q: "q \<in> set (queries s)" "gq_id q = queryId" "gq_steps q \<noteq> []"
    by auto
  have f: "find (\<lambda>x. gq_id x = queryId) (queries s) = Some q"
    using find_distinct_id [OF assms(3) q(1)] q(2) by simp
  have g: "generateWorkflowSteps (gq_query q) \<noteq> []"
    using assms(1) q by (auto simp: ui_inv_def)
  have "ui_inv (foldl (\<lambda>acc step. if ws_status step = Pending
                          then handleExecuteStep queryId (ws_id step) acc else acc) s (gq_steps q))"
    by (rule foldl_executeStep_inv [where P = ui_inv]) (simp_all add: ui_inv_executeStep assms(1))
  then show ?thesis
    by (simp add: handleExecuteWorkflow_def f Let_def ui_inv_add_workflow_timer g)
qed

lemma ui_inv_callback:
  assumes "ui_inv s"
    and "case t of StepTimer queryId stepId \<Rightarrow> True
                 | WorkflowTimer queryId q \<Rightarrow> generateWorkflowSteps (gq_query q) \<noteq> []"
  shows "ui_inv (timerCallback now t s)"
  using assms by (cases t) (auto simp: ui_inv_def sampleLayer_def)

lemma ui_inv_fire:
  assumes "ui_inv s"
  shows "ui_inv (fire i now s)"
proof (cases "i < length (timers s)")
  case True
  have t: "case timers s ! i of StepTimer queryId stepId \<Rightarrow> True
                 | WorkflowTimer queryId q \<Rightarrow> generateWorkflowSteps (gq_query q) \<noteq> []"
    using assms True by (simp add: ui_inv_def)
  have "set (take i (timers s) @ drop (Suc i) (timers s)) \<subseteq> set (timers s)"
    using set_take_subset set_drop_subset by fastforce
  then have "ui_inv (s\<lparr>timers := take i (timers s) @ drop (Suc i) (timers s)\<rparr>)"
    using assms by (rule ui_inv_timers_upd [rotated])
  then show ?thesis
    using True t by (simp add: fire_def ui_inv_callback)
next
  case False
  then show ?thesis using assms by (simp add: fire_def)
qed

lemma ui_inv_event:
  assumes "ui_inv s" and "ui_offers s e" and "distinct (map gq_id (queries s))"
  shows "ui_inv (apply_event e s)"
  using assms
  by (cases e)
    (simp_all add: ui_inv_submit ui_inv_edit ui_inv_executeStep ui_inv_fire
      ui_inv_executeWorkflow del: ui_offers.simps)

lemma ui_inv_run:
  "ui_inv s \<Longrightarrow> ui_trace s es \<Longrightarrow> distinct (map gq_id (queries (run es s))) \<Longrightarrow>
   ui_inv (run es s)"
proof (induction es arbitrary: s)
  case Nil
  then show ?case by simp
next
  case (Cons e es)
  have "distinct (map gq_id (queries s))"
    using sessions_kept_distinct [OF sessions_kept_run [of s "e # es"]] Cons.prems(3) by simp
  then have "ui_inv (apply_event e s)"
    using Cons.prems by (simp add: ui_inv_event)
  then show ?case
    using Cons.IH [of "apply_event e s"] Cons.prems by simp
qed

lemma ui_inv_init: "ui_inv init_state"
  by (simp add: ui_inv_def init_state_def)

text \<open>
  Claim C5 says that a session whose query matches no keyword never gets a map layer,
  not even when executeWorkflow is called on it. The handler does not look at the steps:
  called on the session of "hello world", which has none, it schedules its timer, and
  the timer appends a heat-island layer.
\<close>

theorem C5_counterexample:
  "gq_steps (hd (queries (run [SubmitQuery 5 6 ''hello world''] init_state))) = []
   \<and> map ml_name (mapLayers (run [SubmitQuery 5 6 ''hello world'',
         ExecuteWorkflow ''query-5'', Fire 0 9] init_state)) = [''Result: hello world'']
   \<and> map ml_type (mapLayers (run [SubmitQuery 5 6 ''hello world'',
         ExecuteWorkflow ''query-5'', Fire 0 9] init_state)) = [HeatIsland]
   \<and> map ml_color (mapLayers (run [SubmitQuery 5 6 ''hello world'',
         ExecuteWorkflow ''query-5'', Fire 0 9] init_state)) = [''#f59e0b'']"
  by code_simp

text \<open>
  Claim C5, amended. For a query matching no keyword, the session has no step and the
  chat surface does not offer executeWorkflow on it; and in every state reached from the
  empty state through the operations the chat surface offers (executeWorkflow only on a
  session with at least one step and the status processing), the session ids being
  distinct, no map layer named after that query exists.
\<close>

theorem C5_amended:
  assumes "ui_trace init_state es"
    and "distinct (map gq_id (queries (run es init_state)))"
    and "generateWorkflowSteps query = []"
  shows "\<not> ui_offers (handleSubmitQuery now stamp query init_state)
             (ExecuteWorkflow (''query-'' @ decimal now))
       \<and> (\<forall>layer \<in> set (mapLayers (run es init_state)). ml_name layer \<noteq> ''Result: '' @ query)"
proof -
  have "ui_inv (run es init_state)"
    using ui_inv_run [OF ui_inv_init assms(1,2)] .
  then have "\<forall>layer \<in> set (mapLayers (run es init_state)). ml_name layer \<noteq> ''Result: '' @ query"
    using assms(3) by (auto simp: ui_inv_def)
  moreover have "\<not> ui_offers (handleSubmitQuery now stamp query init_state)
             (ExecuteWorkflow (''query-'' @ decimal now))"
    using assms(3) by (simp add: handleSubmitQuery_def init_state_def)
  ultimately show ?thesis by simp
qed

theorem C5_amended_witness:
  "ui_trace init_state [SubmitQuery 5 6 ''hello world'', SubmitQuery 7 8 ''flood'',
       ExecuteWorkflow ''query-7'', Fire 3 9]
   \<and> generateWorkflowSteps ''hello world'' = []
   \<and> map ml_name (mapLayers (run [SubmitQuery 5 6 ''hello world'', SubmitQuery 7 8 ''flood'',
       ExecuteWorkflow ''query-7'', Fire 3 9] init_state)) = [''Result: flood'']
   \<and> list_all (\<lambda>layer. ml_name layer \<noteq> ''Result: hello world'')
       (mapLayers (run [SubmitQuery 5 6 ''hello world'', SubmitQuery 7 8 ''flood'',
          ExecuteWorkflow ''query-7'', Fire 3 9] init_state))
   \<and> \<not> ui_offers (handleSubmitQuery 5 6 ''hello world'' init_state) (ExecuteWorkflow ''query-5'')"
proof -
  have a: "ui_trace init_state [SubmitQuery 5 6 ''hello world'', SubmitQuery 7 8 ''flood'',
       ExecuteWorkflow ''query-7'', Fire 3 9]"
    by code_simp
  have b: "distinct (map gq_id (queries (run [SubmitQuery 5 6 ''hello world'',
       SubmitQuery 7 8 ''flood'', ExecuteWorkflow ''query-7'', Fire 3 9] init_state)))"
    by code_simp
  have c: "generateWorkflowSteps ''hello world'' = []" by code_simp
  have d: "map ml_name (mapLayers (run [SubmitQuery 5 6 ''hello world'', SubmitQuery 7 8 ''flood'',
       ExecuteWorkflow ''query-7'', Fire 3 9] init_state)) = [''Result: flood'']"
    by code_simp
  have e: "decimal 5 = ''5''" by code_simp
  show ?thesis
    using C5_amended [OF a b c, of 5 6] a c d e by (simp add: list_all_iff)
qed

end
